theory Spec2Isabelle
  imports Complex_Main "HOL-Library.Sublist"
begin

section \<open>JavaScript values used by the flight tracker\<close>

text \<open>
  The repository is one React component in two variants, both in \<^verbatim>\<open>src/App.tsx\<close>:
  the live variant (lines 1-330: OpenSky fetch with a synthetic fallback) and the
  dual-mode variant (lines 331-654: synthetic flights and airports, perturbation timer,
  flight/airport search). Definitions of the dual-mode variant carry the suffix \<open>_d\<close>
  where a name occurs in both.

  Modelling conventions.
  \<^item> A JavaScript number is the \<^typ>\<open>real\<close> it denotes. The arithmetic of the perturbation
    tick is IEEE binary64: every sum, difference and product is rounded to the nearest
    double by \<open>fl\<close> (ties to even, subnormals included). The generators are computed on
    exact reals. NaN, the infinities and overflow are not modelled.
  \<^item> A string is a list of code units below 256 (\<^typ>\<open>char\<close>); \<open>trim\<close> and
    \<open>toLowerCase\<close> are modelled exactly on that range.
  \<^item> \<open>Math.random()\<close> is a function \<open>rnd\<close> from the index of the call to the value
    returned, with a counter of the calls made so far; the library guarantees values in
    \<open>[0, 1)\<close>, which is the predicate \<open>valid_rng\<close>.
  \<^item> A \<open>useState\<close> cell is a field of a state record, a setter is a record update.
\<close>

type_synonym rng = "nat \<Rightarrow> real"

definition valid_rng :: "rng \<Rightarrow> bool" where
  "valid_rng rnd = (\<forall>i. 0 \<le> rnd i \<and> rnd i < 1)"

subsection \<open>Strings\<close>

text \<open>White space of \<open>String.prototype.trim\<close> below U+0100: TAB, LF, VT, FF, CR, SP, NBSP.\<close>

definition is_white_space :: "char \<Rightarrow> bool" where
  "is_white_space c = ((of_char c :: nat) \<in> {9, 10, 11, 12, 13, 32, 160})"

definition trim :: "string \<Rightarrow> string" where
  "trim s = rev (dropWhile is_white_space (rev (dropWhile is_white_space s)))"

text \<open>\<open>toLowerCase\<close> below U+0100: A-Z and the Latin-1 capitals (U+00C0-U+00DE except the
  multiplication sign U+00D7) move up by 32.\<close>

definition toLowerCase_char :: "char \<Rightarrow> char" where
  "toLowerCase_char c =
     (let n = (of_char c :: nat)
      in if (65 \<le> n \<and> n \<le> 90) \<or> (192 \<le> n \<and> n \<le> 222 \<and> n \<noteq> 215)
         then char_of (n + 32) else c)"

definition toLowerCase :: "string \<Rightarrow> string" where
  "toLowerCase s = map toLowerCase_char s"

text \<open>\<open>s.includes(t)\<close>: \<open>t\<close> occurs in \<open>s\<close> at some position.\<close>

fun str_includes :: "string \<Rightarrow> string \<Rightarrow> bool" where
  "str_includes [] t = (t = [])"
| "str_includes (c # s) t = (prefix t (c # s) \<or> str_includes s t)"

text \<open>Decimal rendering of an integer-valued number, as template literals and
  \<open>toString()\<close> produce it.\<close>

fun nat_to_string :: "nat \<Rightarrow> string" where
  "nat_to_string n =
     (if n < 10 then [char_of (48 + n)]
      else nat_to_string (n div 10) @ [char_of (48 + n mod 10)])"

declare nat_to_string.simps [simp del]

definition int_to_string :: "int \<Rightarrow> string" where
  "int_to_string i = (if i < 0 then CHR ''-'' # nat_to_string (nat (- i)) else nat_to_string (nat i))"

text \<open>\<open>xs[Math.floor(r * xs.length)]\<close> inside a string context. With \<open>r\<close> in \<open>[0, 1)\<close> the
  index is in range; out of range JavaScript reads \<open>undefined\<close>, which a template literal
  renders as the text \<open>undefined\<close>.\<close>

definition pick :: "string list \<Rightarrow> real \<Rightarrow> string" where
  "pick xs r =
     (let i = \<lfloor>r * real (length xs)\<rfloor>
      in if 0 \<le> i \<and> i < int (length xs) then xs ! nat i else ''undefined'')"

text \<open>\<open>String.fromCharCode(65 + Math.floor(r * 26))\<close>.\<close>

definition random_letter :: "real \<Rightarrow> char" where
  "random_letter r = char_of (65 + \<lfloor>r * 26\<rfloor>)"

text \<open>\<open>x % y\<close> on numbers: the remainder of the division truncated towards zero, so the
  result has the sign of \<open>x\<close>.\<close>

definition js_trunc :: "real \<Rightarrow> int" where
  "js_trunc x = (if 0 \<le> x then \<lfloor>x\<rfloor> else \<lceil>x\<rceil>)"

definition js_rem :: "real \<Rightarrow> real \<Rightarrow> real" where
  "js_rem x y = x - y * of_int (js_trunc (x / y))"

subsection \<open>IEEE binary64 rounding\<close>

text \<open>\<open>ilog2 n\<close> is \<open>\<lfloor>log\<^sub>2 n\<rfloor>\<close> for \<open>n \<ge> 1\<close>; \<open>pow2 e\<close> is \<open>2\<^sup>e\<close> for an integer \<open>e\<close>; \<open>binade a\<close> is
  \<open>\<lfloor>log\<^sub>2 a\<rfloor>\<close> for a positive \<open>a\<close>.\<close>

fun ilog2 :: "nat \<Rightarrow> nat" where
  "ilog2 n = (if n < 2 then 0 else Suc (ilog2 (n div 2)))"

declare ilog2.simps [simp del]

definition pow2 :: "int \<Rightarrow> real" where
  "pow2 e = (if 0 \<le> e then 2 ^ nat e else 1 / 2 ^ nat (- e))"

definition binade :: "real \<Rightarrow> int" where
  "binade a =
     (if 1 \<le> a then int (ilog2 (nat \<lfloor>a\<rfloor>))
      else - int (Suc (ilog2 (nat (\<lceil>1 / a\<rceil> - 1)))))"

text \<open>Rounding to the nearest integer, ties to the even one.\<close>

definition round_half_even :: "real \<Rightarrow> int" where
  "round_half_even t =
     (let f = \<lfloor>t\<rfloor>; d = t - of_int f
      in if d < 1 / 2 then f else if 1 / 2 < d then f + 1 else if even f then f else f + 1)"

text \<open>\<open>fl x\<close> is the double nearest to \<open>x\<close>: a multiple of the spacing of the doubles around
  \<open>x\<close>, which is \<open>2\<^sup>e\<^sup>-\<^sup>5\<^sup>2\<close> in the binade \<open>e\<close> and \<open>2\<^sup>-\<^sup>1\<^sup>0\<^sup>7\<^sup>4\<close> for subnormals.\<close>

definition fl :: "real \<Rightarrow> real" where
  "fl x =
     (if x = 0 then 0
      else let q = pow2 (max (binade \<bar>x\<bar> - 52) (- 1074))
           in of_int (round_half_even (x / q)) * q)"


section \<open>Dual-mode variant: data model and generators\<close>

record Flight_d =
  flight_icao :: string
  flight_iata :: string
  dep_iata :: string
  arr_iata :: string
  airline_icao :: string
  airline_iata :: string
  latitude_f :: real
  longitude_f :: real
  altitude :: real
  speed :: real
  status :: string
  direction :: real

record Airport =
  airport_name :: string
  iata_code :: string
  icao_code :: string
  latitude_a :: string
  longitude_a :: string
  country_name :: string
  city_iata_code :: string

definition airlines_d :: "string list" where
  "airlines_d = [''AA'', ''UA'', ''DL'', ''LH'', ''BA'', ''AF'', ''KL'', ''EK'', ''QR'', ''SQ'']"

definition statuses :: "string list" where
  "statuses = [''scheduled'', ''active'', ''landed'', ''delayed'', ''cancelled'']"

text \<open>One iteration of the loop of \<open>generateMockFlights\<close> (lines 390-404): fifteen calls of
  \<open>Math.random()\<close>, in the order in which the object literal evaluates them.\<close>

definition mockFlight_d :: "rng \<Rightarrow> nat \<Rightarrow> Flight_d" where
  "mockFlight_d rnd k =
     (let airline = pick airlines_d (rnd k)
      in \<lparr> flight_icao = airline @ int_to_string \<lfloor>1000 + rnd (k + 1) * 9000\<rfloor>,
           flight_iata = airline @ int_to_string \<lfloor>100 + rnd (k + 2) * 900\<rfloor>,
           dep_iata = [random_letter (rnd (k + 3)), random_letter (rnd (k + 4)),
                       random_letter (rnd (k + 5))],
           arr_iata = [random_letter (rnd (k + 6)), random_letter (rnd (k + 7)),
                       random_letter (rnd (k + 8))],
           airline_icao = airline @ ''A'',
           airline_iata = airline,
           latitude_f = rnd (k + 9) * 180 - 90,
           longitude_f = rnd (k + 10) * 360 - 180,
           altitude = of_int \<lfloor>rnd (k + 11) * 40000\<rfloor> + 5000,
           speed = of_int \<lfloor>rnd (k + 12) * 500\<rfloor> + 300,
           status = pick statuses (rnd (k + 13)),
           direction = of_int \<lfloor>rnd (k + 14) * 360\<rfloor> \<rparr>)"

text \<open>The loop \<open>for (let i = 0; i < count; i++) flights.push(...)\<close>; the result carries the
  number of random draws made so far.\<close>

function generateMockFlights_d_loop ::
  "int \<Rightarrow> int \<Rightarrow> rng \<Rightarrow> nat \<Rightarrow> Flight_d list \<Rightarrow> Flight_d list \<times> nat" where
  "generateMockFlights_d_loop count i rnd k flights =
     (if i < count
      then generateMockFlights_d_loop count (i + 1) rnd (k + 15) (flights @ [mockFlight_d rnd k])
      else (flights, k))"
  by pat_completeness auto
termination
  by (relation "measure (\<lambda>(count, i, rnd, k, flights). nat (count - i))") auto

declare generateMockFlights_d_loop.simps [simp del]

definition generateMockFlights_d :: "int \<Rightarrow> rng \<Rightarrow> nat \<Rightarrow> Flight_d list \<times> nat" where
  "generateMockFlights_d count rnd k = generateMockFlights_d_loop count 0 rnd k []"

text \<open>\<open>x.toFixed(6)\<close>: the sign, then the nearest millionth of \<open>|x|\<close> (the larger one
  on a tie), with six decimals.\<close>

definition pad_left :: "nat \<Rightarrow> string \<Rightarrow> string" where
  "pad_left n s = replicate (n - length s) CHR ''0'' @ s"

definition toFixed6 :: "real \<Rightarrow> string" where
  "toFixed6 x =
     (let a = \<bar>x\<bar>;
          n = nat \<lfloor>a * 1000000 + 1 / 2\<rfloor>;
          m = pad_left 7 (nat_to_string n);
          body = take (length m - 6) m @ CHR ''.'' # drop (length m - 6) m
      in if x < 0 then CHR ''-'' # body else body)"

definition countries_d :: "string list" where
  "countries_d = [''USA'', ''UK'', ''Germany'', ''France'', ''Japan'', ''Australia'', ''Canada'',
                  ''Brazil'', ''India'', ''China'']"

text \<open>One iteration of the loop of \<open>generateMockAirports\<close> (lines 415-424): six draws.\<close>

definition mockAirport :: "rng \<Rightarrow> nat \<Rightarrow> Airport" where
  "mockAirport rnd k =
     (let iataCode = [random_letter (rnd k), random_letter (rnd (k + 1)),
                      random_letter (rnd (k + 2))]
      in \<lparr> airport_name = iataCode @ '' International Airport'',
           iata_code = iataCode,
           icao_code = CHR ''K'' # iataCode,
           latitude_a = toFixed6 (rnd (k + 3) * 180 - 90),
           longitude_a = toFixed6 (rnd (k + 4) * 360 - 180),
           country_name = pick countries_d (rnd (k + 5)),
           city_iata_code = take 2 iataCode \<rparr>)"

function generateMockAirports_loop ::
  "int \<Rightarrow> int \<Rightarrow> rng \<Rightarrow> nat \<Rightarrow> Airport list \<Rightarrow> Airport list \<times> nat" where
  "generateMockAirports_loop count i rnd k airports =
     (if i < count
      then generateMockAirports_loop count (i + 1) rnd (k + 6) (airports @ [mockAirport rnd k])
      else (airports, k))"
  by pat_completeness auto
termination
  by (relation "measure (\<lambda>(count, i, rnd, k, airports). nat (count - i))") auto

declare generateMockAirports_loop.simps [simp del]

definition generateMockAirports :: "int \<Rightarrow> rng \<Rightarrow> nat \<Rightarrow> Airport list \<times> nat" where
  "generateMockAirports count rnd k = generateMockAirports_loop count 0 rnd k []"

section \<open>Dual-mode variant: component state and operations\<close>

datatype search_type = FlightSearch | AirportSearch

record state_d =
  flights_d :: "Flight_d list"
  filteredFlights_d :: "Flight_d list"
  airports :: "Airport list"
  filteredAirports :: "Airport list"
  selectedFlight_d :: "Flight_d option"
  selectedAirport :: "Airport option"
  error_d :: "string option"
  searchTerm_d :: string
  searchType :: search_type
  loading_d :: bool

text \<open>The \<open>useState\<close> defaults (lines 431-440).\<close>

definition initial_state_d :: state_d where
  "initial_state_d =
     \<lparr> flights_d = [], filteredFlights_d = [], airports = [], filteredAirports = [],
       selectedFlight_d = None, selectedAirport = None, error_d = None,
       searchTerm_d = [], searchType = FlightSearch, loading_d = True \<rparr>"

text \<open>\<open>fetchMockData\<close> (lines 442-462). Nothing in the \<open>try\<close> block raises (the
  generators only index fixed arrays and build strings), so the \<open>catch\<close> branch is never
  entered and the model is the \<open>try\<close> block followed by \<open>finally\<close>.\<close>

definition fetchMockData :: "rng \<Rightarrow> state_d \<Rightarrow> state_d" where
  "fetchMockData rnd s =
     (let (mockFlights, k) = generateMockFlights_d 100 rnd 0;
          (mockAirports, k') = generateMockAirports 50 rnd k
      in s\<lparr> flights_d := mockFlights, filteredFlights_d := mockFlights,
              airports := mockAirports, filteredAirports := [],
              error_d := None, loading_d := False \<rparr>)"

text \<open>The body of the interval callback (lines 467-474) for one record: five draws.
  Each operator of the source is one rounded operation; the literal \<open>0.1\<close> is the double
  \<open>fl 0.1\<close>, the other literals are doubles as written; \<open>Math.max\<close>, \<open>Math.min\<close> and
  \<open>%\<close> are exact on doubles. \<open>altitude_raw\<close> and \<open>speed_raw\<close> are the arguments of the
  clamps.\<close>

definition nudge :: "real \<Rightarrow> real \<Rightarrow> real" where
  "nudge r c = fl (fl (r - 0.5) * c)"

definition altitude_raw :: "rng \<Rightarrow> nat \<Rightarrow> Flight_d \<Rightarrow> real" where
  "altitude_raw rnd k flight = fl (altitude flight + nudge (rnd (k + 2)) 1000)"

definition speed_raw :: "rng \<Rightarrow> nat \<Rightarrow> Flight_d \<Rightarrow> real" where
  "speed_raw rnd k flight = fl (speed flight + nudge (rnd (k + 3)) 50)"

definition perturb :: "rng \<Rightarrow> nat \<Rightarrow> Flight_d \<Rightarrow> Flight_d" where
  "perturb rnd k flight =
     flight\<lparr> latitude_f := fl (latitude_f flight + nudge (rnd k) (fl 0.1)),
             longitude_f := fl (longitude_f flight + nudge (rnd (k + 1)) (fl 0.1)),
             altitude := max 5000 (min 40000 (altitude_raw rnd k flight)),
             speed := max 300 (min 800 (speed_raw rnd k flight)),
             direction :=
               js_rem (fl (fl (direction flight + nudge (rnd (k + 4)) 10) + 360)) 360 \<rparr>"

text \<open>\<open>prevFlights.map(...)\<close>, threading the draw counter from left to right.\<close>

fun perturb_all :: "rng \<Rightarrow> nat \<Rightarrow> Flight_d list \<Rightarrow> Flight_d list" where
  "perturb_all rnd k [] = []"
| "perturb_all rnd k (flight # prevFlights) =
     perturb rnd k flight # perturb_all rnd (k + 5) prevFlights"

text \<open>\<open>handleSearch\<close> (lines 480-504).\<close>

definition flight_matches_d :: "string \<Rightarrow> Flight_d \<Rightarrow> bool" where
  "flight_matches_d searchTermLower flight =
     (str_includes (toLowerCase (flight_icao flight)) searchTermLower \<or>
      str_includes (toLowerCase (flight_iata flight)) searchTermLower)"

definition airport_matches :: "string \<Rightarrow> Airport \<Rightarrow> bool" where
  "airport_matches searchTermLower airport =
     (str_includes (toLowerCase (airport_name airport)) searchTermLower \<or>
      str_includes (toLowerCase (iata_code airport)) searchTermLower \<or>
      str_includes (toLowerCase (icao_code airport)) searchTermLower)"

definition handleSearch_d :: "state_d \<Rightarrow> state_d" where
  "handleSearch_d s =
     (if trim (searchTerm_d s) = []
      then s\<lparr> filteredFlights_d := flights_d s, filteredAirports := [] \<rparr>
      else let searchTermLower = toLowerCase (searchTerm_d s)
           in if searchType s = FlightSearch
              then s\<lparr> filteredFlights_d := filter (flight_matches_d searchTermLower) (flights_d s),
                      filteredAirports := [] \<rparr>
              else s\<lparr> filteredAirports := filter (airport_matches searchTermLower) (airports s),
                      filteredFlights_d := [] \<rparr>)"

text \<open>
  The events of the component. Each state-changing event is followed by the effect of
  line 506-508, which calls \<open>handleSearch\<close> when the search term, the search type or one
  of the two full lists has changed. A marker exists only for a record of the subset the
  map currently renders (lines 610-650): flights in flight mode, airports in airport mode.
\<close>

datatype event =
    FetchMockData rng
  | PerturbTick rng
  | ChangeSearchTerm string
  | ChangeSearchType search_type
  | ClickSearch
  | ClickFlightMarker nat
  | ClickAirportMarker nat

fun step :: "event \<Rightarrow> state_d \<Rightarrow> state_d" where
  "step (FetchMockData rnd) s = handleSearch_d (fetchMockData rnd s)"
| "step (PerturbTick rnd) s = handleSearch_d (s\<lparr> flights_d := perturb_all rnd 0 (flights_d s) \<rparr>)"
| "step (ChangeSearchTerm q) s =
     (if q = searchTerm_d s then s else handleSearch_d (s\<lparr> searchTerm_d := q \<rparr>))"
| "step (ChangeSearchType t) s =
     (if t = searchType s then s else handleSearch_d (s\<lparr> searchType := t \<rparr>))"
| "step ClickSearch s = handleSearch_d s"
| "step (ClickFlightMarker i) s =
     (if searchType s = FlightSearch \<and> i < length (filteredFlights_d s)
      then s\<lparr> selectedFlight_d := Some (filteredFlights_d s ! i) \<rparr> else s)"
| "step (ClickAirportMarker i) s =
     (if searchType s = AirportSearch \<and> i < length (filteredAirports s)
      then s\<lparr> selectedAirport := Some (filteredAirports s ! i) \<rparr> else s)"

text \<open>A run of the component: the events in the order in which they occur.\<close>

definition run :: "event list \<Rightarrow> state_d \<Rightarrow> state_d" where
  "run es s = foldl (\<lambda>s' e. step e s') s es"

text \<open>\<open>Math.random()\<close> returns values in \<open>[0, 1)\<close> in every event that draws.\<close>

fun valid_event :: "event \<Rightarrow> bool" where
  "valid_event (FetchMockData rnd) = valid_rng rnd"
| "valid_event (PerturbTick rnd) = valid_rng rnd"
| "valid_event _ = True"

inductive reachable :: "state_d \<Rightarrow> bool" where
  reachable_init: "reachable initial_state_d"
| reachable_step: "reachable s \<Longrightarrow> valid_event e \<Longrightarrow> reachable (step e s)"

section \<open>Live variant: data model\<close>

text \<open>
  The values of a parsed JSON body, with JavaScript's \<open>undefined\<close> for what a read of an
  absent property yields. The keys of an object are distinct, as \<open>JSON.parse\<close> leaves them.
\<close>

datatype json =
    JUndefined
  | JNull
  | JBool bool
  | JNum real
  | JStr string
  | JArr "json list"
  | JObj "(string \<times> json) list"

datatype js_error = NetworkError | TypeError | Error string

text \<open>
  The interface \<open>Flight\<close> (lines 10-28). Its field types are erased at run time and
  \<open>fetchFlights\<close> fills the fields from \<open>state: any\<close>, so a field holds whatever value the
  payload carries.
\<close>

record Flight =
  icao24 :: json
  callsign :: json
  origin_country :: json
  time_position :: json
  last_contact :: json
  longitude :: json
  latitude :: json
  baro_altitude :: json
  on_ground :: json
  velocity :: json
  true_track :: json
  vertical_rate :: json
  sensors :: json
  geo_altitude :: json
  squawk :: json
  spi :: json
  position_source :: json

fun truthy :: "json \<Rightarrow> bool" where
  "truthy JUndefined = False"
| "truthy JNull = False"
| "truthy (JBool b) = b"
| "truthy (JNum x) = (x \<noteq> 0)"
| "truthy (JStr s) = (s \<noteq> [])"
| "truthy (JArr xs) = True"
| "truthy (JObj kvs) = True"

fun nullish :: "json \<Rightarrow> bool" where
  "nullish JUndefined = True"
| "nullish JNull = True"
| "nullish v = False"

text \<open>\<open>data.states\<close> on a value that is not nullish: only an object has such a property.\<close>

fun get_states :: "json \<Rightarrow> json" where
  "get_states (JObj kvs) = (case map_of kvs ''states'' of Some v \<Rightarrow> v | None \<Rightarrow> JUndefined)"
| "get_states v = JUndefined"

text \<open>\<open>state[i]\<close> on a value that is not nullish: an element of an array, a character of a
  string, a property of an object, and \<open>undefined\<close> in every other case.\<close>

fun js_index :: "json \<Rightarrow> nat \<Rightarrow> json" where
  "js_index (JArr xs) i = (if i < length xs then xs ! i else JUndefined)"
| "js_index (JStr s) i = (if i < length s then JStr [s ! i] else JUndefined)"
| "js_index (JObj kvs) i = (case map_of kvs (nat_to_string i) of Some v \<Rightarrow> v | None \<Rightarrow> JUndefined)"
| "js_index v i = JUndefined"

text \<open>\<open>state[1]?.trim() || "N/A"\<close>: the optional chain stops on \<open>null\<close> and \<open>undefined\<close>
  only; a string is trimmed; any other value has no method \<open>trim\<close> and the call raises.\<close>

fun callsign_of :: "json \<Rightarrow> js_error + json" where
  "callsign_of JUndefined = Inr (JStr ''N/A'')"
| "callsign_of JNull = Inr (JStr ''N/A'')"
| "callsign_of (JStr s) = Inr (JStr (if trim s = [] then ''N/A'' else trim s))"
| "callsign_of v = Inl TypeError"

text \<open>The arrow function of lines 114-132. Reading \<open>state[0]\<close> raises when \<open>state\<close> is
  \<open>null\<close> or \<open>undefined\<close>; after it no other index read can raise.\<close>

definition map_state :: "json \<Rightarrow> js_error + Flight" where
  "map_state state =
     (if nullish state then Inl TypeError
      else case callsign_of (js_index state 1) of
        Inl e \<Rightarrow> Inl e
      | Inr c \<Rightarrow>
          Inr \<lparr> icao24 = js_index state 0,
                callsign = c,
                origin_country = js_index state 2,
                time_position = js_index state 3,
                last_contact = js_index state 4,
                longitude = js_index state 5,
                latitude = js_index state 6,
                baro_altitude = js_index state 7,
                on_ground = js_index state 8,
                velocity = js_index state 9,
                true_track = js_index state 10,
                vertical_rate = js_index state 11,
                sensors = js_index state 12,
                geo_altitude = js_index state 13,
                squawk = js_index state 14,
                spi = js_index state 15,
                position_source = js_index state 16 \<rparr>)"

text \<open>\<open>response.data.states.map(...)\<close>: the first element that raises ends the map.\<close>

fun map_states :: "json list \<Rightarrow> js_error + Flight list" where
  "map_states [] = Inr []"
| "map_states (state # rest) =
     (case map_state state of
        Inl e \<Rightarrow> Inl e
      | Inr flight \<Rightarrow> (case map_states rest of Inl e \<Rightarrow> Inl e | Inr fs \<Rightarrow> Inr (flight # fs)))"

section \<open>Live variant: the synthetic generator\<close>

definition countries :: "string list" where
  "countries = [''USA'', ''UK'', ''France'', ''Germany'', ''Japan'', ''Canada'', ''Australia'',
                ''Brazil'', ''China'', ''India'']"

definition airlines :: "string list" where
  "airlines = [''AAL'', ''BAW'', ''DLH'', ''AFR'', ''UAL'', ''SIA'', ''QFA'', ''JAL'', ''ANA'', ''KAL'']"

text \<open>\<open>Math.random().toString(16).substr(2, 6)\<close>: at most six hexadecimal digits of the
  fraction, fewer when the expansion ends earlier (\<open>0\<close> prints as \<open>"0"\<close>, of which
  \<open>substr(2, 6)\<close> is empty).\<close>

definition hex_char :: "nat \<Rightarrow> char" where
  "hex_char d = ''0123456789abcdef'' ! d"

fun hex_digits :: "nat \<Rightarrow> real \<Rightarrow> string" where
  "hex_digits 0 r = []"
| "hex_digits (Suc n) r =
     (if r = 0 then []
      else hex_char (nat \<lfloor>r * 16\<rfloor>) # hex_digits n (r * 16 - of_int \<lfloor>r * 16\<rfloor>))"

text \<open>\<open>countries[Math.floor(r * countries.length)]\<close> as a value.\<close>

definition pick_value :: "string list \<Rightarrow> real \<Rightarrow> json" where
  "pick_value xs r =
     (let i = \<lfloor>r * real (length xs)\<rfloor>
      in if 0 \<le> i \<and> i < int (length xs) then JStr (xs ! nat i) else JUndefined)"

text \<open>One iteration of the loop of \<open>generateMockFlights\<close> (lines 72-93): fourteen draws;
  \<open>now\<close> is \<open>Date.now()\<close> in milliseconds.\<close>

definition mockFlight :: "rng \<Rightarrow> nat \<Rightarrow> int \<Rightarrow> Flight" where
  "mockFlight rnd k now =
     (let icao = hex_digits 6 (rnd k);
          airline = pick airlines (rnd (k + 1));
          flightNumber = \<lfloor>rnd (k + 2) * 9000\<rfloor> + 1000
      in \<lparr> icao24 = JStr icao,
           callsign = JStr (airline @ int_to_string flightNumber),
           origin_country = pick_value countries (rnd (k + 3)),
           time_position = JNum (of_int (now div 1000)),
           last_contact = JNum (of_int (now div 1000)),
           longitude = JNum (rnd (k + 4) * 360 - 180),
           latitude = JNum (rnd (k + 5) * 180 - 90),
           baro_altitude = JNum (rnd (k + 6) * 10000 + 1000),
           on_ground = JBool (rnd (k + 7) > 0.9),
           velocity = JNum (rnd (k + 8) * 300 + 400),
           true_track = JNum (rnd (k + 9) * 360),
           vertical_rate = JNum ((rnd (k + 10) - 0.5) * 20),
           sensors = JNull,
           geo_altitude = JNum (rnd (k + 11) * 10000 + 1000),
           squawk = JStr (int_to_string \<lfloor>rnd (k + 12) * 9000 + 1000\<rfloor>),
           spi = JBool False,
           position_source = JNum (of_int \<lfloor>rnd (k + 13) * 3\<rfloor>) \<rparr>)"

function generateMockFlights_loop ::
  "int \<Rightarrow> int \<Rightarrow> rng \<Rightarrow> nat \<Rightarrow> int \<Rightarrow> Flight list \<Rightarrow> Flight list \<times> nat" where
  "generateMockFlights_loop count i rnd k now flights =
     (if i < count
      then generateMockFlights_loop count (i + 1) rnd (k + 14) now (flights @ [mockFlight rnd k now])
      else (flights, k))"
  by pat_completeness auto
termination
  by (relation "measure (\<lambda>(count, i, rnd, k, now, flights). nat (count - i))") auto

declare generateMockFlights_loop.simps [simp del]

definition generateMockFlights :: "int \<Rightarrow> rng \<Rightarrow> nat \<Rightarrow> int \<Rightarrow> Flight list \<times> nat" where
  "generateMockFlights count rnd k now = generateMockFlights_loop count 0 rnd k now []"

section \<open>Live variant: component state and operations\<close>

record state =
  flights :: "Flight list"
  filteredFlights :: "Flight list"
  selectedFlight :: "Flight option"
  error :: "string option"
  searchTerm :: string
  loading :: bool
  usingMockData :: bool

text \<open>The outcome of \<open>await axios.get(...)\<close>: the promise rejects (network failure, status
  outside 2xx), or resolves with \<open>response.data\<close>.\<close>

datatype axios_result = Rejected | Response json

text \<open>The \<open>try\<close> block of \<open>fetchFlights\<close> (lines 110-139) up to the list it hands to the
  setters.\<close>

definition fetch_try :: "axios_result \<Rightarrow> js_error + Flight list" where
  "fetch_try res =
     (case res of
        Rejected \<Rightarrow> Inl NetworkError
      | Response data \<Rightarrow>
          (if truthy data
           then (case get_states data of
                   JArr states \<Rightarrow> map_states states
                 | _ \<Rightarrow> Inl (Error ''No flight data available''))
           else Inl (Error ''No flight data available'')))"

text \<open>\<open>fetchFlights\<close> (lines 107-150): the \<open>catch\<close> clause takes every error of the \<open>try\<close>
  block; \<open>finally\<close> clears the loading flag. The result is a sum so that "does not raise"
  is a statement about the function.\<close>

definition fetchFlights :: "axios_result \<Rightarrow> rng \<Rightarrow> int \<Rightarrow> state \<Rightarrow> js_error + state" where
  "fetchFlights res rnd now s =
     (case fetch_try res of
        Inr flightData \<Rightarrow>
          Inr (s\<lparr> flights := flightData, filteredFlights := flightData, error := None,
                  usingMockData := False, loading := False \<rparr>)
      | Inl e \<Rightarrow>
          (let mockFlights = fst (generateMockFlights 100 rnd 0 now)
           in Inr (s\<lparr> flights := mockFlights, filteredFlights := mockFlights,
                      error := Some ''Failed to fetch real flight data. Using mock data instead.'',
                      usingMockData := True, loading := False \<rparr>)))"

text \<open>\<open>handleSearch\<close> (lines 159-173). \<open>x.toLowerCase()\<close> raises unless \<open>x\<close> is a string.\<close>

fun js_toLowerCase :: "json \<Rightarrow> js_error + string" where
  "js_toLowerCase (JStr s) = Inr (toLowerCase s)"
| "js_toLowerCase v = Inl TypeError"

definition flight_matches :: "string \<Rightarrow> Flight \<Rightarrow> js_error + bool" where
  "flight_matches searchTermLower flight =
     (case js_toLowerCase (icao24 flight) of
        Inl e \<Rightarrow> Inl e
      | Inr icao \<Rightarrow>
          if str_includes icao searchTermLower then Inr True
          else if truthy (callsign flight)
          then (case js_toLowerCase (callsign flight) of
                  Inl e \<Rightarrow> Inl e
                | Inr c \<Rightarrow> Inr (str_includes c searchTermLower))
          else Inr False)"

fun filter_flights :: "string \<Rightarrow> Flight list \<Rightarrow> js_error + Flight list" where
  "filter_flights q [] = Inr []"
| "filter_flights q (flight # rest) =
     (case flight_matches q flight of
        Inl e \<Rightarrow> Inl e
      | Inr b \<Rightarrow>
          (case filter_flights q rest of
             Inl e \<Rightarrow> Inl e
           | Inr fs \<Rightarrow> Inr (if b then flight # fs else fs)))"

definition handleSearch :: "state \<Rightarrow> js_error + state" where
  "handleSearch s =
     (if trim (searchTerm s) = [] then Inr (s\<lparr> filteredFlights := flights s \<rparr>)
      else case filter_flights (toLowerCase (searchTerm s)) (flights s) of
        Inl e \<Rightarrow> Inl e
      | Inr filtered \<Rightarrow> Inr (s\<lparr> filteredFlights := filtered \<rparr>))"

text \<open>A marker is rendered for a record of the filtered subset whose latitude and
  longitude are both truthy (line 301); its click handler is \<open>setSelectedFlight\<close>
  (line 307).\<close>

definition clickMarker :: "nat \<Rightarrow> state \<Rightarrow> state" where
  "clickMarker i s =
     (if i < length (filteredFlights s) \<and> truthy (latitude (filteredFlights s ! i)) \<and>
         truthy (longitude (filteredFlights s ! i))
      then s\<lparr> selectedFlight := Some (filteredFlights s ! i) \<rparr> else s)"

section \<open>Notions of the specification\<close>

text \<open>"The field contains \<open>q\<close> as a case-insensitive substring": after lowering both, the
  query occurs in the field as a contiguous block.\<close>

definition ci_substring :: "string \<Rightarrow> string \<Rightarrow> bool" where
  "ci_substring q field = sublist (toLowerCase q) (toLowerCase field)"

text \<open>The same for a field of the live variant, which can match only when it holds a
  string.\<close>

fun ci_substring_value :: "string \<Rightarrow> json \<Rightarrow> bool" where
  "ci_substring_value q (JStr field) = ci_substring q field"
| "ci_substring_value q v = False"

fun is_string :: "json \<Rightarrow> bool" where
  "is_string (JStr s) = True"
| "is_string v = False"

text \<open>A record of the live variant as the interface \<open>Flight\<close> types its searched fields:
  the identity is a string, the callsign is a string (or absent, as in the payload).\<close>

definition searchable :: "Flight \<Rightarrow> bool" where
  "searchable f = (is_string (icao24 f) \<and> (is_string (callsign f) \<or> \<not> truthy (callsign f)))"

text \<open>A snapshot of provenance "synthetic": the mock flag is set, the list has 100
  records and the error message is present and not empty.\<close>

definition synthetic_snapshot :: "state \<Rightarrow> bool" where
  "synthetic_snapshot s =
     (usingMockData s \<and> length (flights s) = 100 \<and>
      (case error s of None \<Rightarrow> False | Some m \<Rightarrow> m \<noteq> []))"

text \<open>A snapshot of provenance "live": the mock flag and the error are cleared.\<close>

definition live_snapshot :: "state \<Rightarrow> bool" where
  "live_snapshot s = (\<not> usingMockData s \<and> error s = None)"

text \<open>A well-formed record of the payload (section 6 of the specification): seventeen
  positions, the callsign at position 1 a string or \<open>null\<close>.\<close>

definition well_formed_record :: "json list \<Rightarrow> bool" where
  "well_formed_record r =
     (length r = 17 \<and> (case r ! 1 of JStr c \<Rightarrow> True | JNull \<Rightarrow> True | _ \<Rightarrow> False))"

text \<open>The fields of \<open>f\<close> are taken position by position from \<open>r\<close>; the callsign is the
  trimmed string of position 1, or \<open>N/A\<close> when that is \<open>null\<close> or blank.\<close>

definition positional :: "json list \<Rightarrow> Flight \<Rightarrow> bool" where
  "positional r f =
     (icao24 f = r ! 0 \<and>
      callsign f = (case r ! 1 of
                      JStr c \<Rightarrow> JStr (if trim c = [] then ''N/A'' else trim c)
                    | _ \<Rightarrow> JStr ''N/A'') \<and>
      origin_country f = r ! 2 \<and>
      time_position f = r ! 3 \<and>
      last_contact f = r ! 4 \<and>
      longitude f = r ! 5 \<and>
      latitude f = r ! 6 \<and>
      baro_altitude f = r ! 7 \<and>
      on_ground f = r ! 8 \<and>
      velocity f = r ! 9 \<and>
      true_track f = r ! 10 \<and>
      vertical_rate f = r ! 11 \<and>
      sensors f = r ! 12 \<and>
      geo_altitude f = r ! 13 \<and>
      squawk f = r ! 14 \<and>
      spi f = r ! 15 \<and>
      position_source f = r ! 16)"

section \<open>Example inputs\<close>

definition flight_DL123 :: Flight_d where
  "flight_DL123 =
     \<lparr> flight_icao = ''DL1234'', flight_iata = ''DL123'', dep_iata = ''JFK'', arr_iata = ''LAX'',
       airline_icao = ''DLA'', airline_iata = ''DL'', latitude_f = 10, longitude_f = 20,
       altitude = 30000, speed = 500, status = ''active'', direction = 90 \<rparr>"

definition flight_AA456 :: Flight_d where
  "flight_AA456 =
     \<lparr> flight_icao = ''AA4567'', flight_iata = ''AA456'', dep_iata = ''SFO'', arr_iata = ''ORD'',
       airline_icao = ''AAA'', airline_iata = ''AA'', latitude_f = -5, longitude_f = 40,
       altitude = 44999, speed = 799, status = ''landed'', direction = 359 \<rparr>"

definition airport_JFK :: Airport where
  "airport_JFK =
     \<lparr> airport_name = ''JFK International Airport'', iata_code = ''JFK'', icao_code = ''KJFK'',
       latitude_a = ''40.641300'', longitude_a = ''-73.778100'', country_name = ''USA'',
       city_iata_code = ''JF'' \<rparr>"

definition airport_mode_blank_query :: state_d where
  "airport_mode_blank_query =
     \<lparr> flights_d = [flight_DL123, flight_AA456], filteredFlights_d = [],
       airports = [airport_JFK], filteredAirports = [airport_JFK],
       selectedFlight_d = None, selectedAirport = None, error_d = None,
       searchTerm_d = ''  '', searchType = AirportSearch, loading_d = False \<rparr>"

definition half_rng :: rng where
  "half_rng = (\<lambda>i. 1 / 2)"

definition initial_state :: state where
  "initial_state =
     \<lparr> flights = [], filteredFlights = [], selectedFlight = None, error = None,
       searchTerm = [], loading = True, usingMockData = False \<rparr>"

definition record_a :: "json list" where
  "record_a =
     [JStr ''3c6444'', JStr ''DLH400  '', JStr ''Germany'', JNum 1700000000, JNum 1700000001,
      JNum 8, JNum 50, JNum 10000, JBool False, JNum 230, JNum 90, JNum 0, JNull, JNum 10100,
      JStr ''1000'', JBool False, JNum 0]"

definition record_b :: "json list" where
  "record_b =
     [JStr ''a0b1c2'', JNull, JStr ''United States'', JNum 1700000000, JNum 1700000002,
      JNum (-73), JNum 40, JNull, JBool True, JNum 0, JNum 180, JNull, JNull, JNull,
      JNull, JBool False, JNum 0]"

definition payload_two :: json where
  "payload_two = JObj [(''time'', JNum 1700000002), (''states'', JArr [JArr record_a, JArr record_b])]"

definition payload_only_b :: json where
  "payload_only_b = JObj [(''time'', JNum 1700000060), (''states'', JArr [JArr record_b])]"

definition flight_X :: Flight where
  "flight_X =
     \<lparr> icao24 = JStr ''3c6444'', callsign = JStr ''DLH400'', origin_country = JStr ''Germany'',
       time_position = JNum 1700000000, last_contact = JNum 1700000001, longitude = JNum 8,
       latitude = JNum 50, baro_altitude = JNum 10000, on_ground = JBool False,
       velocity = JNum 230, true_track = JNum 90, vertical_rate = JNum 0, sensors = JNull,
       geo_altitude = JNum 10100, squawk = JStr ''1000'', spi = JBool False,
       position_source = JNum 0 \<rparr>"

definition flight_Y :: Flight where
  "flight_Y =
     \<lparr> icao24 = JStr ''a0b1c2'', callsign = JStr ''AAL456'', origin_country = JStr ''United States'',
       time_position = JNum 1700000000, last_contact = JNum 1700000002, longitude = JNum (-73),
       latitude = JNum 40, baro_altitude = JNull, on_ground = JBool True,
       velocity = JNum 0, true_track = JNum 180, vertical_rate = JNull, sensors = JNull,
       geo_altitude = JNull, squawk = JNull, spi = JBool False,
       position_source = JNum 0 \<rparr>"

definition state_X_selected :: state where
  "state_X_selected =
     \<lparr> flights = [flight_X, flight_Y], filteredFlights = [flight_X, flight_Y],
       selectedFlight = Some flight_X, error = None, searchTerm = [], loading = False,
       usingMockData = False \<rparr>"

definition state_query_dlh :: state where
  "state_query_dlh =
     \<lparr> flights = [flight_X, flight_Y], filteredFlights = [flight_X, flight_Y],
       selectedFlight = None, error = None, searchTerm = ''dLh'', loading = False,
       usingMockData = False \<rparr>"

definition flight_mode_query_DL :: state_d where
  "flight_mode_query_DL =
     \<lparr> flights_d = [flight_DL123, flight_AA456], filteredFlights_d = [flight_DL123, flight_AA456],
       airports = [airport_JFK], filteredAirports = [],
       selectedFlight_d = None, selectedAirport = None, error_d = None,
       searchTerm_d = ''DL'', searchType = FlightSearch, loading_d = False \<rparr>"

definition airport_mode_query_jfk :: state_d where
  "airport_mode_query_jfk =
     \<lparr> flights_d = [flight_DL123, flight_AA456], filteredFlights_d = [flight_DL123, flight_AA456],
       airports = [airport_JFK], filteredAirports = [],
       selectedFlight_d = None, selectedAirport = None, error_d = None,
       searchTerm_d = ''jfk int'', searchType = AirportSearch, loading_d = False \<rparr>"


definition both_selected_run :: "event list" where
  "both_selected_run =
     [FetchMockData half_rng, ClickFlightMarker 0, ChangeSearchType AirportSearch,
      ChangeSearchTerm ''k'', ClickAirportMarker 0]"


definition both_selected_state :: state_d where
  "both_selected_state =
     \<lparr> flights_d = [flight_DL123, flight_AA456], filteredFlights_d = [flight_DL123, flight_AA456],
       airports = [airport_JFK], filteredAirports = [],
       selectedFlight_d = Some flight_DL123, selectedAirport = Some airport_JFK, error_d = None,
       searchTerm_d = [], searchType = FlightSearch, loading_d = False \<rparr>"


definition record_null_identity :: "json list" where
  "record_null_identity =
     [JNull, JStr ''AAL456'', JStr ''United States'', JNum 1700000000, JNum 1700000002,
      JNum (-73), JNum 40, JNum 9000, JBool False, JNum 210, JNum 180, JNum 0, JNull,
      JNum 9100, JNull, JBool False, JNum 0]"

definition payload_null_identity :: json where
  "payload_null_identity =
     JObj [(''time'', JNum 1700000002), (''states'', JArr [JArr record_null_identity])]"

definition flight_null_identity :: Flight where
  "flight_null_identity =
     \<lparr> icao24 = JNull, callsign = JStr ''AAL456'', origin_country = JStr ''United States'',
       time_position = JNum 1700000000, last_contact = JNum 1700000002, longitude = JNum (-73),
       latitude = JNum 40, baro_altitude = JNum 9000, on_ground = JBool False,
       velocity = JNum 210, true_track = JNum 180, vertical_rate = JNum 0, sensors = JNull,
       geo_altitude = JNum 9100, squawk = JNull, spi = JBool False,
       position_source = JNum 0 \<rparr>"

definition state_query_a :: state where
  "state_query_a =
     \<lparr> flights = [], filteredFlights = [], selectedFlight = None, error = None,
       searchTerm = ''a'', loading = True, usingMockData = False \<rparr>"

definition state_null_identity :: state where
  "state_null_identity =
     \<lparr> flights = [flight_null_identity], filteredFlights = [flight_null_identity],
       selectedFlight = None, error = None, searchTerm = ''a'', loading = False,
       usingMockData = False \<rparr>"

section \<open>Auxiliary facts\<close>

lemma upt_shift: "map f [0..<Suc n] = f 0 # map (\<lambda>j. f (Suc j)) [0..<n]"
  by (simp only: upt_conv_Cons [of 0 "Suc n"] map_Suc_upt [symmetric]) (simp add: comp_def)

lemma generateMockFlights_d_loop_eq:
  "generateMockFlights_d_loop count i rnd k acc =
     (acc @ map (\<lambda>j. mockFlight_d rnd (k + 15 * j)) [0..<nat (count - i)],
      k + 15 * nat (count - i))"
proof (induction count i rnd k acc rule: generateMockFlights_d_loop.induct)
  case (1 count i rnd k flights)
  show ?case
  proof (cases "i < count")
    case True
    then have n: "nat (count - i) = Suc (nat (count - (i + 1)))" by simp
    show ?thesis
      using True "1.IH" [OF True]
      by (subst generateMockFlights_d_loop.simps) (simp add: n upt_shift algebra_simps del: upt_Suc)
  next
    case False
    then show ?thesis
      by (subst generateMockFlights_d_loop.simps) simp
  qed
qed


lemma str_includes_sublist: "str_includes s t \<longleftrightarrow> sublist t s"
  by (induction s) (auto simp: sublist_Cons_right)

lemma trim_nonempty: "trim q \<noteq> [] \<Longrightarrow> q \<noteq> []"
  by (auto simp: trim_def)

lemma toLowerCase_Nil_iff: "toLowerCase q = [] \<longleftrightarrow> q = []"
  by (simp add: toLowerCase_def)

lemma flight_matches_searchable:
  assumes "searchable f" and "q \<noteq> []"
  shows "flight_matches (toLowerCase q) f =
         Inr (ci_substring_value q (icao24 f) \<or> ci_substring_value q (callsign f))"
proof -
  from assms(1) obtain a where a: "icao24 f = JStr a"
    by (cases "icao24 f") (auto simp: searchable_def)
  from assms(2) have ne: "toLowerCase q \<noteq> []" by (simp add: toLowerCase_Nil_iff)
  show ?thesis
  proof (cases "callsign f")
    case (JStr c)
    then show ?thesis
      using a ne by (auto simp: flight_matches_def str_includes_sublist ci_substring_def toLowerCase_def)
  qed (use assms(1) a in \<open>auto simp: flight_matches_def searchable_def str_includes_sublist ci_substring_def\<close>)
qed

lemma filter_flights_searchable:
  assumes "\<forall>f\<in>set fs. searchable f" and "q \<noteq> []"
  shows "filter_flights (toLowerCase q) fs =
         Inr (filter (\<lambda>f. ci_substring_value q (icao24 f) \<or> ci_substring_value q (callsign f)) fs)"
  using assms by (induction fs) (simp_all add: flight_matches_searchable)


lemma flight_matches_d_ci:
  "flight_matches_d (toLowerCase q) =
     (\<lambda>f. ci_substring q (flight_icao f) \<or> ci_substring q (flight_iata f))"
  by (rule ext) (simp add: flight_matches_d_def str_includes_sublist ci_substring_def)

lemma airport_matches_ci:
  "airport_matches (toLowerCase q) =
     (\<lambda>a. ci_substring q (airport_name a) \<or> ci_substring q (iata_code a) \<or>
          ci_substring q (icao_code a))"
  by (rule ext) (simp add: airport_matches_def str_includes_sublist ci_substring_def)

lemma handleSearch_d_flight_mode:
  assumes "trim (searchTerm_d s) \<noteq> []" and "searchType s = FlightSearch"
  shows "handleSearch_d s =
     s\<lparr> filteredFlights_d :=
            filter (\<lambda>f. ci_substring (searchTerm_d s) (flight_icao f) \<or>
                        ci_substring (searchTerm_d s) (flight_iata f)) (flights_d s),
         filteredAirports := [] \<rparr>"
  using assms
  by (simp add: handleSearch_d_def Let_def flight_matches_d_ci)

lemma handleSearch_d_airport_mode:
  assumes "trim (searchTerm_d s) \<noteq> []" and "searchType s = AirportSearch"
  shows "handleSearch_d s =
     s\<lparr> filteredAirports :=
            filter (\<lambda>a. ci_substring (searchTerm_d s) (airport_name a) \<or>
                        ci_substring (searchTerm_d s) (iata_code a) \<or>
                        ci_substring (searchTerm_d s) (icao_code a)) (airports s),
         filteredFlights_d := [] \<rparr>"
  using assms
  by (simp add: handleSearch_d_def Let_def airport_matches_ci)

lemma handleSearch_live:
  assumes "trim (searchTerm s) \<noteq> []" and "\<forall>f\<in>set (flights s). searchable f"
  shows "handleSearch s =
     Inr (s\<lparr> filteredFlights :=
            filter (\<lambda>f. ci_substring_value (searchTerm s) (icao24 f) \<or>
                        ci_substring_value (searchTerm s) (callsign f)) (flights s) \<rparr>)"
  using assms trim_nonempty [OF assms(1)]
  by (simp add: handleSearch_def filter_flights_searchable)

lemma generateMockFlights_loop_eq:
  "generateMockFlights_loop count i rnd k now acc =
     (acc @ map (\<lambda>j. mockFlight rnd (k + 14 * j) now) [0..<nat (count - i)],
      k + 14 * nat (count - i))"
proof (induction count i rnd k now acc rule: generateMockFlights_loop.induct)
  case (1 count i rnd k now flights)
  show ?case
  proof (cases "i < count")
    case True
    then have n: "nat (count - i) = Suc (nat (count - (i + 1)))" by simp
    show ?thesis
      using True "1.IH" [OF True]
      by (subst generateMockFlights_loop.simps) (simp add: n upt_shift algebra_simps del: upt_Suc)
  next
    case False
    then show ?thesis
      by (subst generateMockFlights_loop.simps) simp
  qed
qed

lemma generateMockFlights_eq:
  "fst (generateMockFlights count rnd k now) =
     map (\<lambda>j. mockFlight rnd (k + 14 * j) now) [0..<nat count]"
  by (simp add: generateMockFlights_def generateMockFlights_loop_eq)

lemma fetchFlights_cases:
  "fetchFlights res rnd now s =
     (case fetch_try res of
        Inr flightData \<Rightarrow>
          Inr (s\<lparr> flights := flightData, filteredFlights := flightData, error := None,
                  usingMockData := False, loading := False \<rparr>)
      | Inl e \<Rightarrow>
          Inr (s\<lparr> flights := fst (generateMockFlights 100 rnd 0 now),
                  filteredFlights := fst (generateMockFlights 100 rnd 0 now),
                  error := Some ''Failed to fetch real flight data. Using mock data instead.'',
                  usingMockData := True, loading := False \<rparr>))"
  by (simp add: fetchFlights_def Let_def split: sum.split)

lemma fetchFlights_failure:
  assumes "fetch_try res = Inl e"
  shows "\<exists>s'. fetchFlights res rnd now s = Inr s' \<and> synthetic_snapshot s' \<and>
              flights s' = fst (generateMockFlights 100 rnd 0 now)"
  using assms by (simp add: fetchFlights_cases synthetic_snapshot_def generateMockFlights_eq)

lemma fetchFlights_total: "\<exists>s'. fetchFlights res rnd now s = Inr s'"
  by (cases "fetch_try res") (simp_all add: fetchFlights_cases)

lemma handleSearch_selected: "handleSearch s = Inr s' \<Longrightarrow> selectedFlight s' = selectedFlight s"
  by (auto simp: handleSearch_def split: if_splits sum.splits)

lemma fetchFlights_selected:
  "fetchFlights res rnd now s = Inr s' \<Longrightarrow> selectedFlight s' = selectedFlight s"
  by (cases "fetch_try res") (auto simp: fetchFlights_cases)

lemma get_states_array_truthy: "get_states data = JArr xs \<Longrightarrow> truthy data"
  by (cases data) simp_all

lemma map_state_well_formed:
  assumes "well_formed_record r"
  shows "\<exists>f. map_state (JArr r) = Inr f \<and> positional r f"
proof -
  from assms have len: "length r = 17" by (simp add: well_formed_record_def)
  from assms have "r ! 1 = JNull \<or> (\<exists>c. r ! 1 = JStr c)"
    by (auto simp: well_formed_record_def split: json.splits)
  then show ?thesis
    using len by (auto simp: map_state_def positional_def)
qed

section \<open>Dual-mode variant: the perturbation tick\<close>

lemma length_perturb_all: "length (perturb_all rnd k fs) = length fs"
  by (induction fs arbitrary: k) simp_all


text \<open>
  C5. A perturbation tick maps the list record by record: the output has the length of
  the input, the identity \<open>flight_icao\<close> at every position is the one of the input at that
  position, and every field other than latitude, longitude, altitude, speed and direction
  is unchanged.
\<close>

theorem perturb_all_frame:
  "length (perturb_all rnd k fs) = length fs \<and>
   map flight_icao (perturb_all rnd k fs) = map flight_icao fs \<and>
   map flight_iata (perturb_all rnd k fs) = map flight_iata fs \<and>
   map dep_iata (perturb_all rnd k fs) = map dep_iata fs \<and>
   map arr_iata (perturb_all rnd k fs) = map arr_iata fs \<and>
   map airline_icao (perturb_all rnd k fs) = map airline_icao fs \<and>
   map airline_iata (perturb_all rnd k fs) = map airline_iata fs \<and>
   map status (perturb_all rnd k fs) = map status fs \<and>
   flights_d (step (PerturbTick rnd) s) = perturb_all rnd 0 (flights_d s)"
proof -
  have frame: "map flight_icao (perturb_all rnd k fs) = map flight_icao fs \<and>
      map flight_iata (perturb_all rnd k fs) = map flight_iata fs \<and>
      map dep_iata (perturb_all rnd k fs) = map dep_iata fs \<and>
      map arr_iata (perturb_all rnd k fs) = map arr_iata fs \<and>
      map airline_icao (perturb_all rnd k fs) = map airline_icao fs \<and>
      map airline_iata (perturb_all rnd k fs) = map airline_iata fs \<and>
      map status (perturb_all rnd k fs) = map status fs"
    by (induction fs arbitrary: k) (simp_all add: perturb_def)
  have tick: "flights_d (step (PerturbTick rnd) s) = perturb_all rnd 0 (flights_d s)"
    by (simp add: handleSearch_d_def Let_def)
  from frame tick length_perturb_all show ?thesis by blast
qed

section \<open>Dual-mode variant: the filter\<close>

text \<open>
  C10. After \<open>handleSearch\<close> at least one of the two filtered subsets is empty, whatever
  the query, the mode and the lists; and a query that is empty after trimming sets the
  filtered flights to the full flight list and the filtered airports to the empty list,
  in airport mode too.
\<close>

theorem handleSearch_d_one_subset_empty:
  "(filteredFlights_d (handleSearch_d s) = [] \<or> filteredAirports (handleSearch_d s) = []) \<and>
   (trim (searchTerm_d s) = [] \<longrightarrow>
      filteredFlights_d (handleSearch_d s) = flights_d s \<and>
      filteredAirports (handleSearch_d s) = [])"
  by (simp add: handleSearch_d_def Let_def)

theorem handleSearch_d_one_subset_empty_witness:
  "trim (searchTerm_d airport_mode_blank_query) = [] \<and>
   searchType airport_mode_blank_query = AirportSearch \<and>
   filteredFlights_d (handleSearch_d airport_mode_blank_query) = [flight_DL123, flight_AA456] \<and>
   filteredAirports (handleSearch_d airport_mode_blank_query) = []"
proof -
  have blank: "trim (searchTerm_d airport_mode_blank_query) = []"
    by (simp add: airport_mode_blank_query_def trim_def is_white_space_def)
  have mode: "searchType airport_mode_blank_query = AirportSearch"
    by (simp add: airport_mode_blank_query_def)
  have full: "flights_d airport_mode_blank_query = [flight_DL123, flight_AA456]"
    by (simp add: airport_mode_blank_query_def)
  from handleSearch_d_one_subset_empty [of airport_mode_blank_query] blank mode full
  show ?thesis by simp
qed

section \<open>The filter: empty and non-empty queries\<close>

text \<open>
  C1 (as amended). Empty-query law. In the live variant, a query whose trimmed form is
  empty makes \<open>handleSearch\<close> return the full flight list as it is. In the dual-mode
  variant such a query sets the filtered flights to the full flight list and the filtered
  airports to the empty list in either mode, and changes nothing else: the branch of
  lines 481-485 returns before the search type is read, and the full airport list is
  never assigned to the filtered airports.
\<close>

theorem empty_query_law:
  "(trim (searchTerm s) = [] \<longrightarrow> handleSearch s = Inr (s\<lparr> filteredFlights := flights s \<rparr>)) \<and>
   (trim (searchTerm_d d) = [] \<longrightarrow>
      handleSearch_d d = d\<lparr> filteredFlights_d := flights_d d, filteredAirports := [] \<rparr> \<and>
      filteredFlights_d (handleSearch_d d) = flights_d d \<and>
      filteredAirports (handleSearch_d d) = [])"
  by (simp add: handleSearch_def handleSearch_d_def)

theorem empty_query_law_witness:
  "trim (searchTerm state_X_selected) = [] \<and>
   handleSearch state_X_selected = Inr (state_X_selected\<lparr> filteredFlights := [flight_X, flight_Y] \<rparr>) \<and>
   trim (searchTerm_d airport_mode_blank_query) = [] \<and>
   filteredFlights_d (handleSearch_d airport_mode_blank_query) = [flight_DL123, flight_AA456] \<and>
   filteredAirports (handleSearch_d airport_mode_blank_query) = []"
proof -
  have live: "trim (searchTerm state_X_selected) = []"
    by (simp add: state_X_selected_def trim_def)
  have fl: "flights state_X_selected = [flight_X, flight_Y]"
    by (simp add: state_X_selected_def)
  have dual: "trim (searchTerm_d airport_mode_blank_query) = []"
    by (simp add: airport_mode_blank_query_def trim_def is_white_space_def)
  have fd: "flights_d airport_mode_blank_query = [flight_DL123, flight_AA456]"
    by (simp add: airport_mode_blank_query_def)
  from empty_query_law [of state_X_selected airport_mode_blank_query] live fl dual fd
  show ?thesis by simp
qed

text \<open>
  The claim as stated fails in airport mode: with a blank query the airport subset is
  empty, not the airport list, and the flight subset is not cleared.
\<close>

theorem empty_query_airport_mode_counterexample:
  "trim (searchTerm_d airport_mode_blank_query) = [] \<and>
   searchType airport_mode_blank_query = AirportSearch \<and>
   filteredAirports (handleSearch_d airport_mode_blank_query) \<noteq> airports airport_mode_blank_query \<and>
   filteredFlights_d (handleSearch_d airport_mode_blank_query) \<noteq> []"
  by (simp add: airport_mode_blank_query_def handleSearch_d_def trim_def is_white_space_def)

text \<open>
  C3 (as amended). For a query whose trimmed form is not empty, the subset \<open>handleSearch\<close> produces is
  the full list filtered by "some configured field contains the query as a
  case-insensitive substring" (flights: identity code or display code; airports: name,
  IATA code or ICAO code), which keeps the relative order of the full list. In the live
  variant this holds for a list whose records have a string identity and a string or
  absent callsign, the types the interface \<open>Flight\<close> declares. The query is matched as
  typed, not trimmed.
\<close>

theorem nonempty_query_filter:
  "(trim (searchTerm s) \<noteq> [] \<and> (\<forall>f\<in>set (flights s). searchable f) \<longrightarrow>
      (\<exists>out. handleSearch s = Inr (s\<lparr> filteredFlights := out \<rparr>) \<and>
         out = filter (\<lambda>f. ci_substring_value (searchTerm s) (icao24 f) \<or>
                            ci_substring_value (searchTerm s) (callsign f)) (flights s) \<and>
         subseq out (flights s))) \<and>
   (trim (searchTerm_d d) \<noteq> [] \<and> searchType d = FlightSearch \<longrightarrow>
      filteredFlights_d (handleSearch_d d) =
        filter (\<lambda>f. ci_substring (searchTerm_d d) (flight_icao f) \<or>
                    ci_substring (searchTerm_d d) (flight_iata f)) (flights_d d) \<and>
      subseq (filteredFlights_d (handleSearch_d d)) (flights_d d) \<and>
      filteredAirports (handleSearch_d d) = []) \<and>
   (trim (searchTerm_d d) \<noteq> [] \<and> searchType d = AirportSearch \<longrightarrow>
      filteredAirports (handleSearch_d d) =
        filter (\<lambda>a. ci_substring (searchTerm_d d) (airport_name a) \<or>
                    ci_substring (searchTerm_d d) (iata_code a) \<or>
                    ci_substring (searchTerm_d d) (icao_code a)) (airports d) \<and>
      subseq (filteredAirports (handleSearch_d d)) (airports d) \<and>
      filteredFlights_d (handleSearch_d d) = [])"
proof (intro conjI impI)
  assume a: "trim (searchTerm s) \<noteq> [] \<and> (\<forall>f\<in>set (flights s). searchable f)"
  then show "\<exists>out. handleSearch s = Inr (s\<lparr> filteredFlights := out \<rparr>) \<and>
         out = filter (\<lambda>f. ci_substring_value (searchTerm s) (icao24 f) \<or>
                            ci_substring_value (searchTerm s) (callsign f)) (flights s) \<and>
         subseq out (flights s)"
    by (simp add: handleSearch_live)
next
  assume a: "trim (searchTerm_d d) \<noteq> [] \<and> searchType d = FlightSearch"
  then have h: "handleSearch_d d =
     d\<lparr> filteredFlights_d :=
            filter (\<lambda>f. ci_substring (searchTerm_d d) (flight_icao f) \<or>
                        ci_substring (searchTerm_d d) (flight_iata f)) (flights_d d),
         filteredAirports := [] \<rparr>"
    by (simp add: handleSearch_d_flight_mode)
  show "filteredFlights_d (handleSearch_d d) =
        filter (\<lambda>f. ci_substring (searchTerm_d d) (flight_icao f) \<or>
                    ci_substring (searchTerm_d d) (flight_iata f)) (flights_d d)"
    by (simp add: h)
  show "subseq (filteredFlights_d (handleSearch_d d)) (flights_d d)"
    by (simp add: h)
  show "filteredAirports (handleSearch_d d) = []"
    by (simp add: h)
next
  assume a: "trim (searchTerm_d d) \<noteq> [] \<and> searchType d = AirportSearch"
  then have h: "handleSearch_d d =
     d\<lparr> filteredAirports :=
            filter (\<lambda>a. ci_substring (searchTerm_d d) (airport_name a) \<or>
                        ci_substring (searchTerm_d d) (iata_code a) \<or>
                        ci_substring (searchTerm_d d) (icao_code a)) (airports d),
         filteredFlights_d := [] \<rparr>"
    by (simp add: handleSearch_d_airport_mode)
  show "filteredAirports (handleSearch_d d) =
        filter (\<lambda>a. ci_substring (searchTerm_d d) (airport_name a) \<or>
                    ci_substring (searchTerm_d d) (iata_code a) \<or>
                    ci_substring (searchTerm_d d) (icao_code a)) (airports d)"
    by (simp add: h)
  show "subseq (filteredAirports (handleSearch_d d)) (airports d)"
    by (simp add: h)
  show "filteredFlights_d (handleSearch_d d) = []"
    by (simp add: h)
qed

theorem nonempty_query_filter_witness:
  "trim (searchTerm state_query_dlh) \<noteq> [] \<and>
   flights state_query_dlh = [flight_X, flight_Y] \<and>
   searchable flight_X \<and> searchable flight_Y \<and>
   handleSearch state_query_dlh = Inr (state_query_dlh\<lparr> filteredFlights := [flight_X] \<rparr>) \<and>
   trim (searchTerm_d flight_mode_query_DL) \<noteq> [] \<and>
   searchType flight_mode_query_DL = FlightSearch \<and>
   filteredFlights_d (handleSearch_d flight_mode_query_DL) = [flight_DL123] \<and>
   trim (searchTerm_d airport_mode_query_jfk) \<noteq> [] \<and>
   searchType airport_mode_query_jfk = AirportSearch \<and>
   filteredAirports (handleSearch_d airport_mode_query_jfk) = [airport_JFK]"
proof -
  have l1: "trim (searchTerm state_query_dlh) \<noteq> []"
    by (simp add: state_query_dlh_def trim_def is_white_space_def)
  have l2: "\<forall>f\<in>set (flights state_query_dlh). searchable f"
    by (simp add: state_query_dlh_def searchable_def flight_X_def flight_Y_def)
  have l3: "filter (\<lambda>f. ci_substring_value (searchTerm state_query_dlh) (icao24 f) \<or>
                        ci_substring_value (searchTerm state_query_dlh) (callsign f))
              (flights state_query_dlh) = [flight_X]"
    by code_simp
  have f1: "trim (searchTerm_d flight_mode_query_DL) \<noteq> []"
    by (simp add: flight_mode_query_DL_def trim_def is_white_space_def)
  have f2: "searchType flight_mode_query_DL = FlightSearch"
    by (simp add: flight_mode_query_DL_def)
  have f3: "filter (\<lambda>f. ci_substring (searchTerm_d flight_mode_query_DL) (flight_icao f) \<or>
                        ci_substring (searchTerm_d flight_mode_query_DL) (flight_iata f))
              (flights_d flight_mode_query_DL) = [flight_DL123]"
    by code_simp
  have a1: "trim (searchTerm_d airport_mode_query_jfk) \<noteq> []"
    by (simp add: airport_mode_query_jfk_def trim_def is_white_space_def)
  have a2: "searchType airport_mode_query_jfk = AirportSearch"
    by (simp add: airport_mode_query_jfk_def)
  have a3: "filter (\<lambda>a. ci_substring (searchTerm_d airport_mode_query_jfk) (airport_name a) \<or>
                        ci_substring (searchTerm_d airport_mode_query_jfk) (iata_code a) \<or>
                        ci_substring (searchTerm_d airport_mode_query_jfk) (icao_code a))
              (airports airport_mode_query_jfk) = [airport_JFK]"
    by code_simp
  from nonempty_query_filter [of state_query_dlh flight_mode_query_DL] l1 l2 l3 f1 f2 f3
  have p1: "handleSearch state_query_dlh = Inr (state_query_dlh\<lparr> filteredFlights := [flight_X] \<rparr>)"
    and p2: "filteredFlights_d (handleSearch_d flight_mode_query_DL) = [flight_DL123]"
    by auto
  from nonempty_query_filter [of state_query_dlh airport_mode_query_jfk] a1 a2 a3
  have p3: "filteredAirports (handleSearch_d airport_mode_query_jfk) = [airport_JFK]"
    by auto
  have l4: "flights state_query_dlh = [flight_X, flight_Y]"
    by (simp add: state_query_dlh_def)
  have l5: "searchable flight_X" "searchable flight_Y"
    by (simp_all add: searchable_def flight_X_def flight_Y_def)
  from l1 l4 l5 p1 f1 f2 p2 a1 a2 p3 show ?thesis by blast
qed

text \<open>
  The claim as stated, for every list, fails in the live variant: a payload record with a
  \<open>null\<close> identity is installed as it is (line 115), and on a non-blank query line 168
  calls \<open>toLowerCase\<close> on it, so the filter raises although the callsign matches.
\<close>

theorem null_identity_counterexample:
  "well_formed_record record_null_identity \<and>
   fetchFlights (Response payload_null_identity) half_rng 1700000002000 state_query_a =
     Inr state_null_identity \<and>
   live_snapshot state_null_identity \<and>
   flights state_null_identity = [flight_null_identity] \<and>
   trim (searchTerm state_null_identity) \<noteq> [] \<and>
   ci_substring_value (searchTerm state_null_identity) (callsign flight_null_identity) \<and>
   handleSearch state_null_identity = Inl TypeError"
proof -
  have wf: "well_formed_record record_null_identity"
    by (simp add: well_formed_record_def record_null_identity_def)
  have tr: "trim ''AAL456'' = ''AAL456''" "trim ''a'' = ''a''"
    by code_simp+
  have "fetch_try (Response payload_null_identity) = Inr [flight_null_identity]"
    by (simp add: fetch_try_def payload_null_identity_def map_state_def record_null_identity_def
        flight_null_identity_def tr)
  then have fetch: "fetchFlights (Response payload_null_identity) half_rng 1700000002000
      state_query_a = Inr state_null_identity"
    by (simp add: fetchFlights_cases state_query_a_def state_null_identity_def)
  have live: "live_snapshot state_null_identity"
    by (simp add: live_snapshot_def state_null_identity_def)
  have fl: "flights state_null_identity = [flight_null_identity]"
    by (simp add: state_null_identity_def)
  have q: "trim (searchTerm state_null_identity) \<noteq> []"
    by (simp add: state_null_identity_def tr)
  have m: "ci_substring_value (searchTerm state_null_identity) (callsign flight_null_identity)"
    by code_simp
  have raise: "handleSearch state_null_identity = Inl TypeError"
    by (simp add: handleSearch_def state_null_identity_def tr flight_matches_def
        flight_null_identity_def)
  from wf fetch live fl q m raise show ?thesis by blast
qed

section \<open>Live variant: refresh and selection\<close>

text \<open>
  C9. A snapshot refresh does not modify the selection: \<open>fetchFlights\<close> returns a state
  with the selected record it was given, whatever the fetch delivered; in particular a
  selected record whose identity is absent from the new list stays selected, and the
  re-filtering that follows the refresh leaves it alone as well.
\<close>

theorem refresh_keeps_selection:
  "\<exists>s'. fetchFlights res rnd now s = Inr s' \<and>
      selectedFlight s' = selectedFlight s \<and>
      (\<forall>X. selectedFlight s = Some X \<and> icao24 X \<notin> icao24 ` set (flights s') \<longrightarrow>
           selectedFlight s' = Some X) \<and>
      (\<forall>s''. handleSearch s' = Inr s'' \<longrightarrow> selectedFlight s'' = selectedFlight s)"
proof -
  from fetchFlights_total obtain s' where s': "fetchFlights res rnd now s = Inr s'" by blast
  from fetchFlights_selected [OF s'] have sel: "selectedFlight s' = selectedFlight s" .
  have "\<forall>s''. handleSearch s' = Inr s'' \<longrightarrow> selectedFlight s'' = selectedFlight s"
    using handleSearch_selected sel by metis
  with s' sel show ?thesis by auto
qed

theorem refresh_keeps_selection_witness:
  "\<exists>s'. fetchFlights (Response payload_only_b) half_rng 1700000060000 state_X_selected = Inr s' \<and>
      selectedFlight state_X_selected = Some flight_X \<and>
      icao24 flight_X \<notin> icao24 ` set (flights s') \<and>
      selectedFlight s' = Some flight_X"
proof -
  from refresh_keeps_selection [of "Response payload_only_b" half_rng 1700000060000 state_X_selected]
  obtain s' where
    s': "fetchFlights (Response payload_only_b) half_rng 1700000060000 state_X_selected = Inr s'"
    and keep: "\<forall>X. selectedFlight state_X_selected = Some X \<and>
                 icao24 X \<notin> icao24 ` set (flights s') \<longrightarrow> selectedFlight s' = Some X"
    by blast
  have sel: "selectedFlight state_X_selected = Some flight_X"
    by (simp add: state_X_selected_def)
  have "fetch_try (Response payload_only_b) =
          Inr [flight_Y\<lparr> callsign := JStr ''N/A'', squawk := JNull \<rparr>]"
    by (simp add: fetch_try_def payload_only_b_def map_state_def record_b_def flight_Y_def)
  with s' have "flights s' = [flight_Y\<lparr> callsign := JStr ''N/A'', squawk := JNull \<rparr>]"
    by (auto simp: fetchFlights_cases)
  then have absent: "icao24 flight_X \<notin> icao24 ` set (flights s')"
    by (simp add: flight_X_def flight_Y_def)
  from keep sel absent have "selectedFlight s' = Some flight_X" by blast
  with s' sel absent show ?thesis by blast
qed

text \<open>
  C2. \<open>fetchFlights\<close> does not raise: for every outcome of the fetch it returns a state.
  When the fetch is rejected, or the payload is missing or has no array \<open>states\<close>, or the
  mapping of an element raises, that state is a synthetic snapshot: the mock flag is set,
  the list is the 100 records of the generator and the error message is not empty.
\<close>

theorem fetchFlights_never_raises:
  "\<exists>s'. fetchFlights res rnd now s = Inr s' \<and>
     ((res = Rejected \<or>
       (\<exists>data. res = Response data \<and> (\<not> truthy data \<or> (\<forall>states. get_states data \<noteq> JArr states))) \<or>
       (\<exists>data states e. res = Response data \<and> get_states data = JArr states \<and>
                         map_states states = Inl e))
      \<longrightarrow> synthetic_snapshot s' \<and> flights s' = fst (generateMockFlights 100 rnd 0 now)) \<and>
     (synthetic_snapshot s' \<or> live_snapshot s')"
proof -
  from fetchFlights_total obtain s' where s': "fetchFlights res rnd now s = Inr s'" by blast
  have fail: "synthetic_snapshot s' \<and> flights s' = fst (generateMockFlights 100 rnd 0 now)"
    if "fetch_try res = Inl e" for e
    using fetchFlights_failure [OF that, of rnd now s] s' by simp
  have classes: "\<exists>e. fetch_try res = Inl e"
    if "res = Rejected \<or>
       (\<exists>data. res = Response data \<and> (\<not> truthy data \<or> (\<forall>states. get_states data \<noteq> JArr states))) \<or>
       (\<exists>data states e. res = Response data \<and> get_states data = JArr states \<and>
                         map_states states = Inl e)"
    using that
    by (auto simp: fetch_try_def get_states_array_truthy split: json.splits)
  have either: "synthetic_snapshot s' \<or> live_snapshot s'"
  proof (cases "fetch_try res")
    case (Inl e)
    with fail show ?thesis by blast
  next
    case (Inr fs)
    with s' show ?thesis by (auto simp: fetchFlights_cases live_snapshot_def)
  qed
  from s' fail classes either show ?thesis by blast
qed


theorem fetchFlights_never_raises_witness:
  "(\<exists>s'. fetchFlights Rejected half_rng 1700000000000 initial_state = Inr s' \<and>
         synthetic_snapshot s') \<and>
   (\<exists>s'. fetchFlights (Response (JObj [(''time'', JNum 1700000000)])) half_rng 1700000000000
           initial_state = Inr s' \<and> synthetic_snapshot s') \<and>
   (\<exists>s'. fetchFlights (Response (JObj [(''states'', JArr [JArr [JStr ''3c6444'', JNum 5]])]))
           half_rng 1700000000000 initial_state = Inr s' \<and> synthetic_snapshot s')"
proof -
  have a: "\<exists>s'. fetchFlights Rejected half_rng 1700000000000 initial_state = Inr s' \<and>
         synthetic_snapshot s'"
    using fetchFlights_never_raises [of Rejected half_rng 1700000000000 initial_state]
    by auto
  have nostates: "\<forall>states. get_states (JObj [(''time'', JNum 1700000000)]) \<noteq> JArr states"
    by simp
  have b: "\<exists>s'. fetchFlights (Response (JObj [(''time'', JNum 1700000000)])) half_rng 1700000000000
           initial_state = Inr s' \<and> synthetic_snapshot s'"
    using fetchFlights_never_raises [of "Response (JObj [(''time'', JNum 1700000000)])" half_rng
        1700000000000 initial_state] nostates
    by auto
  have raises: "get_states (JObj [(''states'', JArr [JArr [JStr ''3c6444'', JNum 5]])]) =
                  JArr [JArr [JStr ''3c6444'', JNum 5]] \<and>
                map_states [JArr [JStr ''3c6444'', JNum 5]] = Inl TypeError"
    by (simp add: map_state_def)
  have c: "\<exists>s'. fetchFlights (Response (JObj [(''states'', JArr [JArr [JStr ''3c6444'', JNum 5]])]))
           half_rng 1700000000000 initial_state = Inr s' \<and> synthetic_snapshot s'"
    using fetchFlights_never_raises
      [of "Response (JObj [(''states'', JArr [JArr [JStr ''3c6444'', JNum 5]])])" half_rng
        1700000000000 initial_state] raises
    by blast
  from a b c show ?thesis by blast
qed

text \<open>
  C7. When the payload's \<open>states\<close> is an array of two well-formed records, the resulting
  snapshot is live (mock flag and error cleared) and holds exactly two flight records
  whose fields are taken position by position from the seventeen positions of each
  record.
\<close>

theorem fetchFlights_two_records:
  assumes "get_states data = JArr [JArr a, JArr b]"
    and "well_formed_record a" and "well_formed_record b"
  shows "\<exists>s' f g. fetchFlights (Response data) rnd now s = Inr s' \<and>
           live_snapshot s' \<and> flights s' = [f, g] \<and> positional a f \<and> positional b g"
proof -
  from map_state_well_formed [OF assms(2)] obtain f
    where f: "map_state (JArr a) = Inr f" "positional a f" by blast
  from map_state_well_formed [OF assms(3)] obtain g
    where g: "map_state (JArr b) = Inr g" "positional b g" by blast
  have "fetch_try (Response data) = Inr [f, g]"
    using assms(1) get_states_array_truthy [OF assms(1)] f(1) g(1)
    by (simp add: fetch_try_def)
  then have "fetchFlights (Response data) rnd now s =
      Inr (s\<lparr> flights := [f, g], filteredFlights := [f, g], error := None,
              usingMockData := False, loading := False \<rparr>)"
    by (simp add: fetchFlights_cases)
  with f(2) g(2) show ?thesis by (simp add: live_snapshot_def)
qed

theorem fetchFlights_two_records_witness:
  "get_states payload_two = JArr [JArr record_a, JArr record_b] \<and>
   well_formed_record record_a \<and> well_formed_record record_b \<and>
   (\<exists>s' f g. fetchFlights (Response payload_two) half_rng 1700000002000 initial_state = Inr s' \<and>
      live_snapshot s' \<and> flights s' = [f, g] \<and> positional record_a f \<and> positional record_b g \<and>
      icao24 f = JStr ''3c6444'' \<and> callsign f = JStr ''DLH400'' \<and> callsign g = JStr ''N/A'')"
proof -
  have st: "get_states payload_two = JArr [JArr record_a, JArr record_b]"
    by (simp add: payload_two_def)
  have wa: "well_formed_record record_a"
    by (simp add: well_formed_record_def record_a_def)
  have wb: "well_formed_record record_b"
    by (simp add: well_formed_record_def record_b_def)
  from fetchFlights_two_records [OF st wa wb, of half_rng 1700000002000 initial_state]
  obtain s' f g where
    r: "fetchFlights (Response payload_two) half_rng 1700000002000 initial_state = Inr s'"
       "live_snapshot s'" "flights s' = [f, g]" "positional record_a f" "positional record_b g"
    by blast
  from r(4) have fa: "icao24 f = JStr ''3c6444'' \<and> callsign f = JStr ''DLH400''"
    by (simp add: positional_def record_a_def trim_def is_white_space_def)
  from r(5) have gb: "callsign g = JStr ''N/A''"
    by (simp add: positional_def record_b_def)
  from st wa wb r fa gb show ?thesis by blast
qed

section \<open>The synthetic generators\<close>

lemma generateMockFlights_d_eq:
  "fst (generateMockFlights_d count rnd k) =
     map (\<lambda>j. mockFlight_d rnd (k + 15 * j)) [0..<nat count]"
  by (simp add: generateMockFlights_d_def generateMockFlights_d_loop_eq)

lemma valid_rngD: "valid_rng rnd \<Longrightarrow> 0 \<le> rnd i \<and> rnd i < 1"
  by (simp add: valid_rng_def)

lemma mockFlight_position:
  assumes "valid_rng rnd"
  shows "\<exists>la lo. latitude (mockFlight rnd k now) = JNum la \<and>
                 longitude (mockFlight rnd k now) = JNum lo \<and>
                 - 90 \<le> la \<and> la < 90 \<and> - 180 \<le> lo \<and> lo < 180"
  using valid_rngD [OF assms, of "k + 4"] valid_rngD [OF assms, of "k + 5"]
  by (simp add: mockFlight_def Let_def)

lemma mockFlight_d_position:
  assumes "valid_rng rnd"
  shows "- 90 \<le> latitude_f (mockFlight_d rnd k) \<and> latitude_f (mockFlight_d rnd k) < 90 \<and>
         - 180 \<le> longitude_f (mockFlight_d rnd k) \<and> longitude_f (mockFlight_d rnd k) < 180"
  using valid_rngD [OF assms, of "k + 9"] valid_rngD [OF assms, of "k + 10"]
  by (simp add: mockFlight_d_def Let_def)

text \<open>
  C8. For every count \<open>N\<close> the synthetic generator of either variant returns a list of
  exactly \<open>N\<close> flight records, each with a latitude in the range of \<open>rand * 180 - 90\<close>,
  that is \<open>[-90, 90)\<close>, and a longitude in the range of \<open>rand * 360 - 180\<close>, that is
  \<open>[-180, 180)\<close>.
\<close>

theorem generators_size_and_position:
  assumes "valid_rng rnd" and "0 \<le> N"
  shows "int (length (fst (generateMockFlights N rnd k now))) = N \<and>
         (\<forall>f\<in>set (fst (generateMockFlights N rnd k now)).
            \<exists>la lo. latitude f = JNum la \<and> longitude f = JNum lo \<and>
                    - 90 \<le> la \<and> la < 90 \<and> - 180 \<le> lo \<and> lo < 180) \<and>
         int (length (fst (generateMockFlights_d N rnd k'))) = N \<and>
         (\<forall>f\<in>set (fst (generateMockFlights_d N rnd k')).
            - 90 \<le> latitude_f f \<and> latitude_f f < 90 \<and>
            - 180 \<le> longitude_f f \<and> longitude_f f < 180)"
proof -
  have len: "int (length (fst (generateMockFlights N rnd k now))) = N"
    using assms(2) by (simp add: generateMockFlights_eq)
  have len_d: "int (length (fst (generateMockFlights_d N rnd k'))) = N"
    using assms(2) by (simp add: generateMockFlights_d_eq)
  have pos: "\<exists>la lo. latitude f = JNum la \<and> longitude f = JNum lo \<and>
                    - 90 \<le> la \<and> la < 90 \<and> - 180 \<le> lo \<and> lo < 180"
    if "f \<in> set (fst (generateMockFlights N rnd k now))" for f
  proof -
    from that obtain j where "f = mockFlight rnd (k + 14 * j) now"
      by (auto simp: generateMockFlights_eq)
    with mockFlight_position [OF assms(1)] show ?thesis by simp
  qed
  have pos_d: "- 90 \<le> latitude_f f \<and> latitude_f f < 90 \<and>
            - 180 \<le> longitude_f f \<and> longitude_f f < 180"
    if "f \<in> set (fst (generateMockFlights_d N rnd k'))" for f
  proof -
    from that obtain j where "f = mockFlight_d rnd (k' + 15 * j)"
      by (auto simp: generateMockFlights_d_eq)
    with mockFlight_d_position [OF assms(1)] show ?thesis by simp
  qed
  from len len_d pos pos_d show ?thesis by blast
qed

lemma valid_half_rng: "valid_rng half_rng"
  by (simp add: valid_rng_def half_rng_def)

theorem generators_size_and_position_witness:
  "valid_rng half_rng \<and> (0::int) \<le> 100 \<and>
   int (length (fst (generateMockFlights 100 half_rng 0 1700000000000))) = 100 \<and>
   list_all (\<lambda>f. \<exists>la lo. latitude f = JNum la \<and> longitude f = JNum lo \<and>
                       - 90 \<le> la \<and> la < 90 \<and> - 180 \<le> lo \<and> lo < 180)
     (fst (generateMockFlights 100 half_rng 0 1700000000000)) \<and>
   int (length (fst (generateMockFlights_d 100 half_rng 0))) = 100 \<and>
   list_all (\<lambda>f. - 90 \<le> latitude_f f \<and> latitude_f f < 90 \<and>
                 - 180 \<le> longitude_f f \<and> longitude_f f < 180)
     (fst (generateMockFlights_d 100 half_rng 0))"
proof -
  have v: "valid_rng half_rng"
    by (simp add: valid_rng_def half_rng_def)
  have n: "(0::int) \<le> 100" by simp
  from generators_size_and_position [OF v n, of 0 1700000000000 0] v n
  show ?thesis unfolding list_all_iff by blast
qed

section \<open>Facts about binary64 rounding\<close>



lemma pow2_powr: "pow2 e = 2 powr (of_int e)"
  by (simp add: pow2_def powr_int)

lemma pow2_pos [simp]: "0 < pow2 e"
  by (simp add: pow2_powr)












section \<open>Dual-mode variant: reachable states\<close>







lemma handleSearch_d_flights [simp]: "flights_d (handleSearch_d s) = flights_d s"
  by (simp add: handleSearch_d_def Let_def)

lemma fetchMockData_flights:
  "flights_d (fetchMockData rnd s) = fst (generateMockFlights_d 100 rnd 0)"
  by (simp add: fetchMockData_def Let_def split: prod.split)






section \<open>Dual-mode variant: bounds of the perturbation tick\<close>


lemma reachable_run:
  "reachable s \<Longrightarrow> \<forall>e\<in>set es. valid_event e \<Longrightarrow> reachable (run es s)"
  unfolding run_def
  by (induction es arbitrary: s) (auto intro: reachable_step)



lemma handleSearch_d_frame [simp]:
  "selectedFlight_d (handleSearch_d s) = selectedFlight_d s"
  "selectedAirport (handleSearch_d s) = selectedAirport s"
  "airports (handleSearch_d s) = airports s"
  "searchType (handleSearch_d s) = searchType s"
  "searchTerm_d (handleSearch_d s) = searchTerm_d s"
  by (simp_all add: handleSearch_d_def Let_def)

lemma generateMockAirports_loop_eq:
  "generateMockAirports_loop count i rnd k acc =
     (acc @ map (\<lambda>j. mockAirport rnd (k + 6 * j)) [0..<nat (count - i)],
      k + 6 * nat (count - i))"
proof (induction count i rnd k acc rule: generateMockAirports_loop.induct)
  case (1 count i rnd k airports)
  show ?case
  proof (cases "i < count")
    case True
    then have n: "nat (count - i) = Suc (nat (count - (i + 1)))" by simp
    show ?thesis
      using True "1.IH" [OF True]
      by (subst generateMockAirports_loop.simps) (simp add: n upt_shift algebra_simps del: upt_Suc)
  next
    case False
    then show ?thesis
      by (subst generateMockAirports_loop.simps) simp
  qed
qed

lemma generateMockAirports_eq:
  "fst (generateMockAirports count rnd k) =
     map (\<lambda>j. mockAirport rnd (k + 6 * j)) [0..<nat count]"
  by (simp add: generateMockAirports_def generateMockAirports_loop_eq)

lemma fetchMockData_fields:
  "airports (fetchMockData rnd s) =
     fst (generateMockAirports 50 rnd (snd (generateMockFlights_d 100 rnd 0)))"
  "searchType (fetchMockData rnd s) = searchType s"
  "searchTerm_d (fetchMockData rnd s) = searchTerm_d s"
  "selectedFlight_d (fetchMockData rnd s) = selectedFlight_d s"
  "selectedAirport (fetchMockData rnd s) = selectedAirport s"
  by (simp_all add: fetchMockData_def Let_def split: prod.split)

lemma lower_K: "toLowerCase_char CHR ''K'' = CHR ''k''"
  by code_simp

lemma lower_k: "toLowerCase ''k'' = ''k''"
  by code_simp

lemma trim_k: "trim ''k'' = ''k''"
  by code_simp

lemma mockAirport_matches_k: "airport_matches ''k'' (mockAirport rnd k)"
  by (simp add: airport_matches_def mockAirport_def Let_def toLowerCase_def lower_K)

section \<open>Dual-mode variant: selection\<close>

text \<open>
  C6 (as amended). The flight selection and the airport selection are two independent
  cells. A click on a flight marker unconditionally replaces the selected flight and
  leaves the selected airport as it is; a click on an airport marker unconditionally
  replaces the selected airport and leaves the selected flight as it is; and no event of
  the component clears a selection once it is made. So at most one record of each type is
  selected at a time.
\<close>

theorem select_replaces_own_slot:
  "(searchType s = FlightSearch \<and> i < length (filteredFlights_d s) \<longrightarrow>
      selectedFlight_d (step (ClickFlightMarker i) s) = Some (filteredFlights_d s ! i) \<and>
      selectedAirport (step (ClickFlightMarker i) s) = selectedAirport s) \<and>
   (searchType s = AirportSearch \<and> j < length (filteredAirports s) \<longrightarrow>
      selectedAirport (step (ClickAirportMarker j) s) = Some (filteredAirports s ! j) \<and>
      selectedFlight_d (step (ClickAirportMarker j) s) = selectedFlight_d s) \<and>
   (selectedFlight_d s \<noteq> None \<longrightarrow> selectedFlight_d (step e s) \<noteq> None) \<and>
   (selectedAirport s \<noteq> None \<longrightarrow> selectedAirport (step e s) \<noteq> None)"
proof -
  have clicks:
    "searchType s = FlightSearch \<and> i < length (filteredFlights_d s) \<longrightarrow>
      selectedFlight_d (step (ClickFlightMarker i) s) = Some (filteredFlights_d s ! i) \<and>
      selectedAirport (step (ClickFlightMarker i) s) = selectedAirport s"
    "searchType s = AirportSearch \<and> j < length (filteredAirports s) \<longrightarrow>
      selectedAirport (step (ClickAirportMarker j) s) = Some (filteredAirports s ! j) \<and>
      selectedFlight_d (step (ClickAirportMarker j) s) = selectedFlight_d s"
    by simp_all
  have keep_f: "selectedFlight_d s \<noteq> None \<longrightarrow> selectedFlight_d (step e s) \<noteq> None"
    by (cases e) (simp_all add: fetchMockData_fields)
  have keep_a: "selectedAirport s \<noteq> None \<longrightarrow> selectedAirport (step e s) \<noteq> None"
    by (cases e) (simp_all add: fetchMockData_fields)
  from clicks keep_f keep_a show ?thesis by blast
qed

text \<open>
  The claim as stated fails: after a fetch, a click on a flight marker, a switch to
  airport mode, the query \<open>k\<close> and a click on an airport marker, a flight and an airport
  are selected together.
\<close>

theorem both_selected_counterexample:
  "reachable (run both_selected_run initial_state_d) \<and>
   selectedFlight_d (run both_selected_run initial_state_d) \<noteq> None \<and>
   selectedAirport (run both_selected_run initial_state_d) \<noteq> None"
proof -
  have "\<forall>e\<in>set both_selected_run. valid_event e"
    by (simp add: both_selected_run_def valid_rng_def half_rng_def)
  from reachable_run [OF reachable_init this]
  have r: "reachable (run both_selected_run initial_state_d)" .
  define s1 where "s1 = step (FetchMockData half_rng) initial_state_d"
  define s2 where "s2 = step (ClickFlightMarker 0) s1"
  define s3 where "s3 = step (ChangeSearchType AirportSearch) s2"
  define s4 where "s4 = step (ChangeSearchTerm ''k'') s3"
  define s5 where "s5 = step (ClickAirportMarker 0) s4"
  have run: "run both_selected_run initial_state_d = s5"
    by (simp add: run_def both_selected_run_def s1_def s2_def s3_def s4_def s5_def)
  have s1: "searchType s1 = FlightSearch" "searchTerm_d s1 = []"
    "0 < length (filteredFlights_d s1)" "0 < length (airports s1)"
    "\<forall>a\<in>set (airports s1). airport_matches ''k'' a"
    by (auto simp: s1_def fetchMockData_fields initial_state_d_def handleSearch_d_def trim_def
        fetchMockData_flights generateMockFlights_d_eq generateMockAirports_eq
        mockAirport_matches_k)
  have s2: "searchType s2 = FlightSearch" "searchTerm_d s2 = []" "selectedFlight_d s2 \<noteq> None"
    "airports s2 = airports s1"
    using s1 by (simp_all add: s2_def)
  have s3: "searchType s3 = AirportSearch" "searchTerm_d s3 = []" "selectedFlight_d s3 \<noteq> None"
    "airports s3 = airports s1"
    using s2 by (simp_all add: s3_def)
  have s4: "searchType s4 = AirportSearch" "selectedFlight_d s4 \<noteq> None"
    "filteredAirports s4 = airports s1"
    using s3 s1(5) by (simp_all add: s4_def handleSearch_d_def trim_k lower_k)
  have s5: "selectedFlight_d s5 \<noteq> None" "selectedAirport s5 \<noteq> None"
    using s4 s1(4) by (simp_all add: s5_def)
  from r s5 show ?thesis by (simp add: run)
qed

theorem select_replaces_own_slot_witness:
  "searchType flight_mode_query_DL = FlightSearch \<and>
   1 < length (filteredFlights_d flight_mode_query_DL) \<and>
   selectedFlight_d (step (ClickFlightMarker 1) flight_mode_query_DL) = Some flight_AA456 \<and>
   selectedAirport (step (ClickFlightMarker 1) flight_mode_query_DL) = None \<and>
   searchType airport_mode_blank_query = AirportSearch \<and>
   0 < length (filteredAirports airport_mode_blank_query) \<and>
   selectedAirport (step (ClickAirportMarker 0) airport_mode_blank_query) = Some airport_JFK \<and>
   selectedFlight_d (step (ClickAirportMarker 0) airport_mode_blank_query) = None \<and>
   selectedFlight_d both_selected_state \<noteq> None \<and>
   selectedFlight_d (step (FetchMockData half_rng) both_selected_state) \<noteq> None \<and>
   selectedAirport both_selected_state \<noteq> None \<and>
   selectedAirport (step (FetchMockData half_rng) both_selected_state) \<noteq> None"
proof -
  have f: "searchType flight_mode_query_DL = FlightSearch"
    "1 < length (filteredFlights_d flight_mode_query_DL)"
    "filteredFlights_d flight_mode_query_DL ! 1 = flight_AA456"
    "selectedAirport flight_mode_query_DL = None"
    by (simp_all add: flight_mode_query_DL_def)
  have a: "searchType airport_mode_blank_query = AirportSearch"
    "0 < length (filteredAirports airport_mode_blank_query)"
    "filteredAirports airport_mode_blank_query ! 0 = airport_JFK"
    "selectedFlight_d airport_mode_blank_query = None"
    by (simp_all add: airport_mode_blank_query_def)
  from select_replaces_own_slot [of flight_mode_query_DL 1 0] f
  have p: "selectedFlight_d (step (ClickFlightMarker 1) flight_mode_query_DL) = Some flight_AA456"
    "selectedAirport (step (ClickFlightMarker 1) flight_mode_query_DL) = None"
    by simp_all
  from select_replaces_own_slot [of airport_mode_blank_query 0 0] a
  have q: "selectedAirport (step (ClickAirportMarker 0) airport_mode_blank_query) = Some airport_JFK"
    "selectedFlight_d (step (ClickAirportMarker 0) airport_mode_blank_query) = None"
    by simp_all
  have b: "selectedFlight_d both_selected_state \<noteq> None"
    "selectedAirport both_selected_state \<noteq> None"
    by (simp_all add: both_selected_state_def)
  from select_replaces_own_slot [of both_selected_state 0 0 "FetchMockData half_rng"] b
  have k: "selectedFlight_d (step (FetchMockData half_rng) both_selected_state) \<noteq> None"
    "selectedAirport (step (FetchMockData half_rng) both_selected_state) \<noteq> None"
    by blast+
  from f a p q b k show ?thesis by blast
qed

end
